theory Spec2Isabelle
  imports Complex_Main "HOL-Library.Sublist"
begin

section \<open>Python values\<close>

text \<open>
  The handler of \<^verbatim>\<open>main.py\<close> receives a CloudEvent whose attributes and data body
  were decoded from JSON. Its values are therefore the values \<^verbatim>\<open>json.loads\<close> yields:
  \<^verbatim>\<open>None\<close>, booleans, unbounded integers, floats, strings, lists, and dictionaries with
  string keys. A body that could not be decoded stays raw text and is a \<open>PStr\<close> here.

  A float is only tested against zero and truncated by \<^verbatim>\<open>int()\<close>, both exact
  operations, so a finite float is kept as the rational number it denotes. A \<^verbatim>\<open>str\<close> is a
  \<open>string\<close>, one \<open>char\<close> for each code point below 256. A dictionary is an association
  list read with \<open>map_of\<close>.
\<close>

datatype pyfloat = FFinite rat | FInfinity bool | FNaN

datatype pyval =
    PNone
  | PBool bool
  | PInt int
  | PFloat pyfloat
  | PStr string
  | PList "pyval list"
  | PDict "(string \<times> pyval) list"

text \<open>Truth value testing, as \<^verbatim>\<open>not x\<close> and \<^verbatim>\<open>all([...])\<close> apply it.\<close>

fun truthy :: "pyval \<Rightarrow> bool" where
  "truthy PNone = False"
| "truthy (PBool b) = b"
| "truthy (PInt n) = (n \<noteq> 0)"
| "truthy (PFloat f) = (f \<noteq> FFinite 0)"
| "truthy (PStr s) = (s \<noteq> [])"
| "truthy (PList xs) = (xs \<noteq> [])"
| "truthy (PDict items) = (items \<noteq> [])"

text \<open>\<^verbatim>\<open>isinstance(x, dict)\<close>.\<close>

fun isinstance_dict :: "pyval \<Rightarrow> bool" where
  "isinstance_dict (PDict items) = True"
| "isinstance_dict v = False"

fun isinstance_str :: "pyval \<Rightarrow> bool" where
  "isinstance_str (PStr s) = True"
| "isinstance_str v = False"

section \<open>Exceptions\<close>

text \<open>
  The exceptions the handler can meet, each with what its message shows. \<open>Invalid_literal s\<close>
  is \<^verbatim>\<open>invalid literal for int() with base 10: 's'\<close>. \<open>HTTPError\<close> is what
  \<^verbatim>\<open>raise_for_status\<close> raises; \<open>Transport_error\<close> stands for every other subclass of
  \<^verbatim>\<open>requests.exceptions.RequestException\<close> that \<^verbatim>\<open>requests.post\<close> itself raises
  (connection failure, timeout, too many redirects).
\<close>

datatype value_error = Invalid_literal string | Float_nan

datatype request_error = HTTPError int | Transport_error string

datatype py_exc =
    KeyError string
  | ValueError value_error
  | TypeError pyval
  | OverflowError
  | AttributeError pyval string
  | RequestException request_error

section \<open>Built-in operations the handler calls\<close>

subsection \<open>\<^verbatim>\<open>int(x)\<close>\<close>

text \<open>
  \<^verbatim>\<open>int\<close> of a string, base 10: surrounding whitespace is dropped, one sign is allowed
  directly before the digits, and single underscores may separate digits. Below code
  point 256 the whitespace is tab, line feed, vertical tab, form feed, carriage return,
  space, and the two non-ASCII spaces U+0085 and U+00A0; the only decimal digits are
  \<open>0\<close> to \<open>9\<close>. The interpreter's limit on the length of an integer literal (4300 digits
  unless configured otherwise) is not modelled: a size is a byte count, far below it.
\<close>

definition is_space :: "char \<Rightarrow> bool" where
  "is_space c = (c \<in> set [CHR 0x09, CHR 0x0A, CHR 0x0B, CHR 0x0C, CHR 0x0D, CHR 0x20,
                            CHR 0x85, CHR 0xA0])"

definition is_digit :: "char \<Rightarrow> bool" where
  "is_digit c = (c \<in> set ''0123456789'')"

definition digit_value :: "char \<Rightarrow> int" where
  "digit_value c = of_char c - 48"

fun digits_body :: "string \<Rightarrow> bool" where
  "digits_body [] = False"
| "digits_body [c] = is_digit c"
| "digits_body (c # d # cs) =
     (if is_digit c then (if d = CHR ''_'' then digits_body cs else digits_body (d # cs))
      else False)"

definition int_literal :: "string \<Rightarrow> int option" where
  "int_literal s =
     (let t = dropWhile is_space s;
          neg = (case t of [] \<Rightarrow> False | c # r \<Rightarrow> c = CHR ''-'');
          u = (case t of [] \<Rightarrow> [] | c # r \<Rightarrow> if c = CHR ''-'' \<or> c = CHR ''+'' then r else t);
          body = takeWhile (\<lambda>c. is_digit c \<or> c = CHR ''_'') u;
          rest = dropWhile (\<lambda>c. is_digit c \<or> c = CHR ''_'') u;
          magnitude = foldl (\<lambda>a c. 10 * a + digit_value c) 0 (filter is_digit body)
      in if digits_body body \<and> list_all is_space rest
         then Some (if neg then - magnitude else magnitude)
         else None)"

fun py_int :: "pyval \<Rightarrow> py_exc + int" where
  "py_int (PStr s) =
     (case int_literal s of
        None \<Rightarrow> Inl (ValueError (Invalid_literal s))
      | Some n \<Rightarrow> Inr n)"
| "py_int (PInt n) = Inr n"
| "py_int (PBool b) = Inr (if b then 1 else 0)"
| "py_int (PFloat (FFinite q)) = Inr (if 0 \<le> q then \<lfloor>q\<rfloor> else \<lceil>q\<rceil>)"
| "py_int (PFloat (FInfinity negative)) = Inl OverflowError"
| "py_int (PFloat FNaN) = Inl (ValueError Float_nan)"
| "py_int v = Inl (TypeError v)"

subsection \<open>Attribute lookups\<close>

text \<open>
  \<^verbatim>\<open>x.get\<close> exists on a dictionary only and \<^verbatim>\<open>x.startswith\<close> on a string only; on any
  other value the lookup raises \<^verbatim>\<open>AttributeError\<close>. \<^verbatim>\<open>d.get(k)\<close> is \<^verbatim>\<open>None\<close> for a
  missing key.
\<close>

definition dict_get :: "(string \<times> pyval) list \<Rightarrow> string \<Rightarrow> pyval" where
  "dict_get items k = (case map_of items k of None \<Rightarrow> PNone | Some v \<Rightarrow> v)"

fun attr_get :: "pyval \<Rightarrow> py_exc + (string \<Rightarrow> pyval)" where
  "attr_get (PDict items) = Inr (dict_get items)"
| "attr_get v = Inl (AttributeError v ''get'')"

fun attr_startswith :: "pyval \<Rightarrow> py_exc + (string \<Rightarrow> bool)" where
  "attr_startswith (PStr s) = Inr (\<lambda>p. prefix p s)"
| "attr_startswith v = Inl (AttributeError v ''startswith'')"

section \<open>The event, the configuration and the network\<close>

text \<open>
  A CloudEvent: \<^verbatim>\<open>cloud_event[k]\<close> reads the attribute map and raises \<^verbatim>\<open>KeyError\<close> for
  a missing key; \<^verbatim>\<open>cloud_event.data\<close> is the body, \<^verbatim>\<open>None\<close> when there is none.

  The handler is declared on a CloudEvent (decorator at line 20, docstring at line 28).
  The constructor of that class fills in an identifier and a timestamp when the delivery
  has none and refuses a delivery without a type, so every event the handler is given
  carries \<^verbatim>\<open>id\<close>, \<^verbatim>\<open>type\<close> and \<^verbatim>\<open>time\<close>. The attribute map is kept partial all the
  same, so that the subscripts of lines 34 to 36 are modelled as written.
\<close>

record cloud_event =
  attributes :: "string \<rightharpoonup> pyval"
  data :: pyval

definition getitem :: "cloud_event \<Rightarrow> string \<Rightarrow> py_exc + pyval" where
  "getitem ev k = (case attributes ev k of None \<Rightarrow> Inl (KeyError k) | Some v \<Rightarrow> Inr v)"

definition APPS_SCRIPT_WEB_APP_URL :: string where
  "APPS_SCRIPT_WEB_APP_URL =
     ''https://script.google.com/macros/s/AKfycbw3ktuue6_x_SzbGFb58CS5nbttsLvpi5Nzd9fdPaM6egVlywNsll2UaTbwuFsIX8Re/exec''"

text \<open>\<^verbatim>\<open>os.environ.get('WEBHOOK_SECRET_TOKEN', '12345')\<close>, read once when the module loads.\<close>

definition WEBHOOK_SECRET_TOKEN :: "(string \<rightharpoonup> string) \<Rightarrow> string" where
  "WEBHOOK_SECRET_TOKEN environ =
     (case environ ''WEBHOOK_SECRET_TOKEN'' of None \<Rightarrow> ''12345'' | Some t \<Rightarrow> t)"

text \<open>
  One call of \<^verbatim>\<open>requests.post(url, headers=.., params=.., data=json.dumps(payload))\<close>.
  \<open>json_dumps v\<close> is the text the standard serialiser produces for \<open>v\<close>; the serialiser is
  total on the values above and is not unfolded further.
\<close>

datatype json_text = json_dumps pyval

record http_post =
  url :: string
  headers :: "(string \<times> string) list"
  params :: "(string \<times> string) list"
  body :: json_text

record response =
  status_code :: int
  response_text :: string

text \<open>
  The network is a parameter: it answers a call with a response, or the call raises a
  \<^verbatim>\<open>RequestException\<close> with the given message.
\<close>

type_synonym network = "http_post \<Rightarrow> string + response"

text \<open>\<^verbatim>\<open>response.raise_for_status()\<close>: client and server errors raise, nothing else does.\<close>

definition raise_for_status :: "response \<Rightarrow> py_exc + unit" where
  "raise_for_status r =
     (if 400 \<le> status_code r \<and> status_code r < 600
      then Inl (RequestException (HTTPError (status_code r)))
      else Inr ())"

section \<open>Logging\<close>

text \<open>
  One constructor for each \<^verbatim>\<open>logger\<close> call of the handler, in source order, holding the
  values its f-string interpolates.
\<close>

datatype level = INFO | WARNING | ERROR

datatype log_message =
    Invalid_event_data
  | Missing_metadata pyval
  | Triggered pyval pyval
  | Event_type pyval pyval
  | Processing_file pyval pyval pyval
  | File_details pyval
  | Detail_size pyval
  | Detail_content_type pyval
  | Detail_metageneration pyval
  | Unexpected_content_type pyval pyval pyval
  | File_too_large pyval pyval int
  | Metadata_extracted pyval pyval
  | Sending pyval string
  | Sending_headers pyval "(string \<times> string) list"
  | Sending_params pyval "(string \<times> string) list"
  | Request_succeeded pyval int string
  | Send_failed pyval py_exc
  | Size_conversion_failed pyval pyval py_exc
  | Unexpected_failure pyval pyval py_exc

type_synonym log_record = "level \<times> log_message"

section \<open>The handler\<close>

text \<open>
  What one invocation does: how it ends, the log records it emits in order, and the calls
  of \<^verbatim>\<open>requests.post\<close> it makes in order (a call counts whether it is answered or raises).
\<close>

datatype outcome = Returned | Raised py_exc

record run =
  outcome :: outcome
  logged :: "log_record list"
  sent :: "http_post list"

text \<open>
  The body of the \<^verbatim>\<open>try\<close> statement (lines 80 to 100): the exception that leaves it, if
  any, with the records logged and the calls made until then.
\<close>

definition try_body ::
  "network \<Rightarrow> pyval \<Rightarrow> pyval \<Rightarrow> pyval \<Rightarrow> pyval \<Rightarrow> pyval \<Rightarrow>
   (string \<times> string) list \<Rightarrow> (string \<times> string) list \<Rightarrow>
   py_exc option \<times> log_record list \<times> http_post list" where
  "try_body post event_id file_name file_size content_type payload hdrs prms =
     (case py_int file_size of
        Inl e \<Rightarrow> (Some e, [], [])
      | Inr actual_file_size \<Rightarrow>
     (case attr_startswith content_type of
        Inl e \<Rightarrow> (Some e, [], [])
      | Inr startswith \<Rightarrow>
     (let log1 =
            (if \<not> startswith ''text/'' \<and> \<not> startswith ''application/''
             then [(WARNING, Unexpected_content_type event_id file_name content_type)]
             else []);
          log2 = log1 @
            (if actual_file_size > 10 * 1024 * 1024
             then [(WARNING, File_too_large event_id file_name actual_file_size)]
             else []);
          log3 = log2 @
            [(INFO, Metadata_extracted event_id file_name),
             (INFO, Sending event_id APPS_SCRIPT_WEB_APP_URL),
             (INFO, Sending_headers event_id hdrs),
             (INFO, Sending_params event_id prms)];
          request = \<lparr>url = APPS_SCRIPT_WEB_APP_URL, headers = hdrs, params = prms,
                     body = json_dumps payload\<rparr>
      in case post request of
           Inl msg \<Rightarrow> (Some (RequestException (Transport_error msg)), log3, [request])
         | Inr resp \<Rightarrow>
        (case raise_for_status resp of
           Inl e \<Rightarrow> (Some e, log3, [request])
         | Inr u \<Rightarrow>
             (None,
              log3 @ [(INFO, Request_succeeded event_id (status_code resp) (response_text resp))],
              [request])))))"

text \<open>
  The \<^verbatim>\<open>except\<close> clauses in source order: \<^verbatim>\<open>RequestException\<close>, \<^verbatim>\<open>ValueError\<close>, then
  \<^verbatim>\<open>Exception\<close>. Each logs one error and the handler returns.
\<close>

fun except_clause :: "pyval \<Rightarrow> pyval \<Rightarrow> py_exc \<Rightarrow> log_record" where
  "except_clause event_id file_name (RequestException d) =
     (ERROR, Send_failed event_id (RequestException d))"
| "except_clause event_id file_name (ValueError d) =
     (ERROR, Size_conversion_failed event_id file_name (ValueError d))"
| "except_clause event_id file_name e =
     (ERROR, Unexpected_failure event_id file_name e)"

definition procesar_archivo_gcs :: "(string \<rightharpoonup> string) \<Rightarrow> network \<Rightarrow> cloud_event \<Rightarrow> run" where
  "procesar_archivo_gcs environ post ev =
     (case getitem ev ''id'' of
        Inl e \<Rightarrow> \<lparr>outcome = Raised e, logged = [], sent = []\<rparr>
      | Inr event_id \<Rightarrow>
     (case getitem ev ''type'' of
        Inl e \<Rightarrow> \<lparr>outcome = Raised e, logged = [], sent = []\<rparr>
      | Inr event_type \<Rightarrow>
     (case getitem ev ''time'' of
        Inl e \<Rightarrow> \<lparr>outcome = Raised e, logged = [], sent = []\<rparr>
      | Inr timestamp \<Rightarrow>
     (if \<not> truthy (data ev) \<or> \<not> isinstance_dict (data ev)
      then \<lparr>outcome = Returned, logged = [(ERROR, Invalid_event_data)], sent = []\<rparr>
      else
     (case attr_get (data ev) of
        Inl e \<Rightarrow> \<lparr>outcome = Raised e, logged = [], sent = []\<rparr>
      | Inr get \<Rightarrow>
     (let bucket_name = get ''bucket'';
          file_name = get ''name'';
          file_size = get ''size'';
          content_type = get ''contentType'';
          metageneration = get ''metageneration''
      in if \<not> list_all truthy [bucket_name, file_name, file_size, content_type]
         then \<lparr>outcome = Returned, logged = [(ERROR, Missing_metadata (data ev))], sent = []\<rparr>
         else
     (let log0 =
            [(INFO, Triggered event_id timestamp),
             (INFO, Event_type event_id event_type),
             (INFO, Processing_file event_id file_name bucket_name),
             (INFO, File_details event_id),
             (INFO, Detail_size file_size),
             (INFO, Detail_content_type content_type),
             (INFO, Detail_metageneration metageneration)];
          payload = PDict
            [(''fileName'', file_name),
             (''bucketName'', bucket_name),
             (''fileSize'', file_size),
             (''contentType'', content_type),
             (''timeCreated'', timestamp),
             (''source'', PStr ''CloudStorage'')];
          hdrs = [(''Content-Type'', ''application/json'')];
          prms = [(''token'', WEBHOOK_SECRET_TOKEN environ)]
      in case try_body post event_id file_name file_size content_type payload hdrs prms of
           (None, log1, calls) \<Rightarrow>
             \<lparr>outcome = Returned, logged = log0 @ log1, sent = calls\<rparr>
         | (Some e, log1, calls) \<Rightarrow>
             \<lparr>outcome = Returned,
              logged = log0 @ log1 @ [except_clause event_id file_name e],
              sent = calls\<rparr>)))))))"

section \<open>Vocabulary of the properties\<close>

text \<open>The records a run logged at one level, in order.\<close>

definition logged_at :: "level \<Rightarrow> run \<Rightarrow> log_message list" where
  "logged_at l r = map snd (filter (\<lambda>entry. fst entry = l) (logged r))"

text \<open>The envelope carries the three attributes the handler reads by subscript.\<close>

definition carries_attributes :: "cloud_event \<Rightarrow> bool" where
  "carries_attributes ev =
     (attributes ev ''id'' \<noteq> None \<and> attributes ev ''type'' \<noteq> None \<and>
      attributes ev ''time'' \<noteq> None)"

text \<open>The data body is a mapping with a truthy bucket, name, size and contentType.\<close>

definition essential_fields :: "pyval \<Rightarrow> bool" where
  "essential_fields d =
     (case d of
        PDict items \<Rightarrow>
          truthy (dict_get items ''bucket'') \<and> truthy (dict_get items ''name'') \<and>
          truthy (dict_get items ''size'') \<and> truthy (dict_get items ''contentType'')
      | _ \<Rightarrow> False)"

text \<open>
  A well-formed envelope: it carries its attributes, its body has the four essential
  fields, the size converts to an integer and the content type is a string.
\<close>

definition well_formed :: "cloud_event \<Rightarrow> bool" where
  "well_formed ev =
     (carries_attributes ev \<and> essential_fields (data ev) \<and>
      (case data ev of
         PDict items \<Rightarrow>
           \<not> isl (py_int (dict_get items ''size'')) \<and>
           isinstance_str (dict_get items ''contentType'')
       | _ \<Rightarrow> False))"

text \<open>
  The \<^verbatim>\<open>try\<close> body as the handler calls it, once the essential fields are present:
  on the fields of the body, the payload, the headers and the query parameters of lines 60
  to 77.
\<close>

abbreviation forwarding ::
  "(string \<rightharpoonup> string) \<Rightarrow> network \<Rightarrow> pyval \<Rightarrow> pyval \<Rightarrow> (string \<times> pyval) list \<Rightarrow>
   py_exc option \<times> log_record list \<times> http_post list" where
  "forwarding environ post event_id timestamp items \<equiv>
     try_body post event_id (dict_get items ''name'') (dict_get items ''size'')
       (dict_get items ''contentType'')
       (PDict [(''fileName'', dict_get items ''name''),
               (''bucketName'', dict_get items ''bucket''),
               (''fileSize'', dict_get items ''size''),
               (''contentType'', dict_get items ''contentType''),
               (''timeCreated'', timestamp),
               (''source'', PStr ''CloudStorage'')])
       [(''Content-Type'', ''application/json'')]
       [(''token'', WEBHOOK_SECRET_TOKEN environ)]"

section \<open>Sample inputs\<close>

definition sample_attributes :: "string \<rightharpoonup> pyval" where
  "sample_attributes =
     [''id'' \<mapsto> PStr ''evt-1'',
      ''type'' \<mapsto> PStr ''google.cloud.storage.object.v1.finalized'',
      ''time'' \<mapsto> PStr ''2024-01-01T00:00:00Z'']"

definition sample_items :: "pyval \<Rightarrow> pyval \<Rightarrow> (string \<times> pyval) list" where
  "sample_items size_value content_type =
     [(''bucket'', PStr ''b1''), (''name'', PStr ''f.txt''),
      (''size'', size_value), (''contentType'', content_type)]"

definition sample_event :: "pyval \<Rightarrow> pyval \<Rightarrow> cloud_event" where
  "sample_event size_value content_type =
     \<lparr>attributes = sample_attributes, data = PDict (sample_items size_value content_type)\<rparr>"

definition event_with_body :: "pyval \<Rightarrow> cloud_event" where
  "event_with_body d = \<lparr>attributes = sample_attributes, data = d\<rparr>"

definition event_without_id :: cloud_event where
  "event_without_id =
     \<lparr>attributes = [''type'' \<mapsto> PStr ''google.cloud.storage.object.v1.finalized'',
                    ''time'' \<mapsto> PStr ''2024-01-01T00:00:00Z''],
      data = PDict (sample_items (PStr ''1024'') (PStr ''text/plain''))\<rparr>"

definition no_environ :: "string \<rightharpoonup> string" where
  "no_environ = Map.empty"

definition answers :: "int \<Rightarrow> network" where
  "answers code request = Inr \<lparr>status_code = code, response_text = ''OK''\<rparr>"

section \<open>The built-ins on sample values\<close>

lemma int_literal_samples:
  "int_literal ''1024'' = Some 1024"
  "int_literal ''11000000'' = Some 11000000"
  "int_literal '' -1_000 '' = Some (- 1000)"
  "int_literal ''+007'' = Some 7"
  "int_literal ''abc'' = None"
  "int_literal ''12.5'' = None"
  "int_literal ''1__0'' = None"
  "int_literal ''- 1'' = None"
  "int_literal [] = None"
  by code_simp+

lemma py_int_samples:
  "py_int (PInt 11000000) = Inr 11000000"
  "py_int (PBool True) = Inr 1"
  "py_int (PFloat (FInfinity False)) = Inl OverflowError"
  "py_int (PList [PInt 1]) = Inl (TypeError (PList [PInt 1]))"
  by simp_all

lemma not_str_startswith:
  "\<not> isinstance_str v \<Longrightarrow> attr_startswith v = Inl (AttributeError v ''startswith'')"
  by (cases v) simp_all


section \<open>How a run is assembled\<close>

text \<open>The \<^verbatim>\<open>try\<close> body calls \<^verbatim>\<open>requests.post\<close> at most once.\<close>

lemma try_body_calls:
  "try_body post event_id file_name file_size content_type payload hdrs prms = (x, l, calls)
   \<Longrightarrow> length calls \<le> 1"
  by (auto simp: try_body_def Let_def split: sum.splits)

text \<open>
  Once the size converts and the content type is a string, the \<^verbatim>\<open>try\<close> body reaches the
  call, whatever the advisories and whatever the network answers.
\<close>

lemma try_body_sent:
  assumes "py_int file_size = Inr n" "content_type = PStr ct"
  shows "snd (snd (try_body post event_id file_name file_size content_type payload hdrs prms)) =
    [\<lparr>url = APPS_SCRIPT_WEB_APP_URL, headers = hdrs, params = prms, body = json_dumps payload\<rparr>]"
  using assms by (simp add: try_body_def Let_def split: sum.splits)

text \<open>Every \<^verbatim>\<open>except\<close> clause logs at error level.\<close>

lemma except_clause_level: "fst (except_clause event_id file_name e) = ERROR"
  by (cases e) simp_all

text \<open>
  With the three attributes and the four essential fields present, the run is the
  \<^verbatim>\<open>try\<close> statement's: its calls, a normal return, its warnings, and its errors followed
  by the one the \<^verbatim>\<open>except\<close> clause logs.
\<close>

lemma valid_run:
  assumes "attributes ev ''id'' = Some event_id" "attributes ev ''type'' = Some event_type"
    "attributes ev ''time'' = Some timestamp" "data ev = PDict items"
    "essential_fields (data ev)"
    "forwarding environ post event_id timestamp items = (exc, log1, calls)"
  shows "sent (procesar_archivo_gcs environ post ev) = calls"
    and "outcome (procesar_archivo_gcs environ post ev) = Returned"
    and "logged_at ERROR (procesar_archivo_gcs environ post ev) =
           map snd (filter (\<lambda>entry. fst entry = ERROR) log1) @
           (case exc of None \<Rightarrow> []
            | Some e \<Rightarrow> [snd (except_clause event_id (dict_get items ''name'') e)])"
    and "logged_at WARNING (procesar_archivo_gcs environ post ev) =
           map snd (filter (\<lambda>entry. fst entry = WARNING) log1)"
proof -
  have t: "truthy (PDict items)"
    using assms(4,5) by (auto simp: essential_fields_def dict_get_def)
  note defs = procesar_archivo_gcs_def getitem_def essential_fields_def Let_def logged_at_def
  show "sent (procesar_archivo_gcs environ post ev) = calls"
    using assms t by (cases exc) (simp_all add: defs)
  show "outcome (procesar_archivo_gcs environ post ev) = Returned"
    using assms t by (cases exc) (simp_all add: defs)
  show "logged_at ERROR (procesar_archivo_gcs environ post ev) =
           map snd (filter (\<lambda>entry. fst entry = ERROR) log1) @
           (case exc of None \<Rightarrow> []
            | Some e \<Rightarrow> [snd (except_clause event_id (dict_get items ''name'') e)])"
    using assms t except_clause_level by (cases exc) (simp_all add: defs)
  show "logged_at WARNING (procesar_archivo_gcs environ post ev) =
           map snd (filter (\<lambda>entry. fst entry = WARNING) log1)"
    using assms t except_clause_level by (cases exc) (simp_all add: defs)
qed



lemma carries_attributesD:
  assumes "carries_attributes ev"
  obtains event_id event_type timestamp where
    "attributes ev ''id'' = Some event_id" "attributes ev ''type'' = Some event_type"
    "attributes ev ''time'' = Some timestamp"
  using assms by (auto simp: carries_attributes_def)

lemma well_formedD:
  assumes "well_formed ev"
  obtains event_id event_type timestamp items n ct where
    "attributes ev ''id'' = Some event_id" "attributes ev ''type'' = Some event_type"
    "attributes ev ''time'' = Some timestamp" "data ev = PDict items"
    "essential_fields (data ev)" "py_int (dict_get items ''size'') = Inr n"
    "dict_get items ''contentType'' = PStr ct"
proof -
  from assms have c: "carries_attributes ev" and e: "essential_fields (data ev)"
    by (simp_all add: well_formed_def)
  from e obtain items where d: "data ev = PDict items"
    by (cases "data ev") (simp_all add: essential_fields_def)
  from assms d have "\<not> isl (py_int (dict_get items ''size''))"
    and s: "isinstance_str (dict_get items ''contentType'')"
    by (simp_all add: well_formed_def)
  then obtain n where n: "py_int (dict_get items ''size'') = Inr n"
    by (cases "py_int (dict_get items ''size'')") simp_all
  from s obtain ct where ct: "dict_get items ''contentType'' = PStr ct"
    by (cases "dict_get items ''contentType''") simp_all
  from c obtain event_id event_type timestamp where
    "attributes ev ''id'' = Some event_id" "attributes ev ''type'' = Some event_type"
    "attributes ev ''time'' = Some timestamp"
    by (rule carries_attributesD)
  with d e n ct that show thesis by blast
qed

text \<open>
  On an attribute map without one of the three attributes, which no CloudEvent has, the
  subscript would raise \<^verbatim>\<open>KeyError\<close> at lines 34 to 36, outside the \<^verbatim>\<open>try\<close>
  statement, with nothing logged and nothing sent.
\<close>

lemma raises_without_attributes:
  assumes "\<not> carries_attributes ev"
  shows "\<exists>k \<in> {''id'', ''type'', ''time''}.
           procesar_archivo_gcs environ post ev =
             \<lparr>outcome = Raised (KeyError k), logged = [], sent = []\<rparr>"
  using assms
  by (auto simp: carries_attributes_def procesar_archivo_gcs_def getitem_def
           split: option.splits)

section \<open>The properties\<close>

subsection \<open>Forwarding\<close>

text \<open>
  C1, as amended. For every envelope that carries its id, type and time and whose data
  body is a mapping with a truthy bucket, name, size and contentType, where moreover the
  size converts to an integer under \<^verbatim>\<open>int()\<close> and the contentType is a string, the
  handler calls \<^verbatim>\<open>requests.post\<close> exactly once: on the fixed webhook URL, with the
  query parameter \<^verbatim>\<open>token\<close> set to the configured secret, the single header
  \<^verbatim>\<open>Content-Type: application/json\<close>, and the JSON text of the payload whose fileName,
  bucketName and contentType are the fields received, whose fileSize is the size value as
  received (not the parsed integer), whose timeCreated is the envelope's time and whose
  source is \<^verbatim>\<open>CloudStorage\<close>.
\<close>

theorem forwarded_request:
  assumes "carries_attributes ev" "attributes ev ''time'' = Some timestamp"
    "data ev = PDict items" "essential_fields (data ev)"
    "py_int (dict_get items ''size'') = Inr n" "dict_get items ''contentType'' = PStr ct"
  shows "sent (procesar_archivo_gcs environ post ev) =
    [\<lparr>url = APPS_SCRIPT_WEB_APP_URL,
      headers = [(''Content-Type'', ''application/json'')],
      params = [(''token'', WEBHOOK_SECRET_TOKEN environ)],
      body = json_dumps (PDict
        [(''fileName'', dict_get items ''name''),
         (''bucketName'', dict_get items ''bucket''),
         (''fileSize'', dict_get items ''size''),
         (''contentType'', dict_get items ''contentType''),
         (''timeCreated'', timestamp),
         (''source'', PStr ''CloudStorage'')])\<rparr>]"
proof -
  from assms(1) obtain event_id event_type where
    a: "attributes ev ''id'' = Some event_id" "attributes ev ''type'' = Some event_type"
    by (auto simp: carries_attributes_def)
  let ?t = "forwarding environ post event_id timestamp items"
  obtain exc log1 calls where t: "?t = (exc, log1, calls)"
    by (cases ?t) auto
  have "sent (procesar_archivo_gcs environ post ev) = calls"
    by (rule valid_run(1)[OF a assms(2,3,4) t])
  moreover have "calls = snd (snd ?t)"
    using t by simp
  ultimately show ?thesis
    using try_body_sent[OF assms(5,6)] by simp
qed

theorem forwarded_request_witness:
  "sent (procesar_archivo_gcs no_environ (answers 200)
           (sample_event (PStr ''1024'') (PStr ''text/plain''))) =
    [\<lparr>url = APPS_SCRIPT_WEB_APP_URL,
      headers = [(''Content-Type'', ''application/json'')],
      params = [(''token'', ''12345'')],
      body = json_dumps (PDict
        [(''fileName'', PStr ''f.txt''),
         (''bucketName'', PStr ''b1''),
         (''fileSize'', PStr ''1024''),
         (''contentType'', PStr ''text/plain''),
         (''timeCreated'', PStr ''2024-01-01T00:00:00Z''),
         (''source'', PStr ''CloudStorage'')])\<rparr>]"
proof -
  let ?ev = "sample_event (PStr ''1024'') (PStr ''text/plain'')"
  let ?items = "sample_items (PStr ''1024'') (PStr ''text/plain'')"
  have h1: "carries_attributes ?ev"
    by code_simp
  have h2: "attributes ?ev ''time'' = Some (PStr ''2024-01-01T00:00:00Z'')"
    by (simp add: sample_event_def sample_attributes_def)
  have h3: "data ?ev = PDict ?items"
    by (simp add: sample_event_def)
  have h4: "essential_fields (data ?ev)"
    by code_simp
  have h5: "py_int (dict_get ?items ''size'') = Inr 1024"
    by code_simp
  have h6: "dict_get ?items ''contentType'' = PStr ''text/plain''"
    by (simp add: dict_get_def sample_items_def)
  show ?thesis
    using forwarded_request[OF h1 h2 h3 h4 h5 h6, of no_environ "answers 200"]
    by (simp add: dict_get_def sample_items_def WEBHOOK_SECRET_TOKEN_def no_environ_def)
qed

text \<open>
  C1 as stated asks only for the four fields to be non-empty. The size \<^verbatim>\<open>"abc"\<close> is
  non-empty, and the handler sends nothing: the conversion at line 80 raises before the
  call at line 97.
\<close>

theorem nonnumeric_size_not_forwarded:
  "carries_attributes (sample_event (PStr ''abc'') (PStr ''text/plain'')) \<and>
   essential_fields (data (sample_event (PStr ''abc'') (PStr ''text/plain''))) \<and>
   sent (procesar_archivo_gcs no_environ (answers 200)
           (sample_event (PStr ''abc'') (PStr ''text/plain''))) = []"
  by code_simp

subsection \<open>Validation\<close>

text \<open>
  C2. For every envelope (carrying its id, type and time) whose data body is a non-empty
  mapping in which one of bucket, name, size, contentType is absent or falsy (the empty
  string and the integer 0 included), the handler makes no outbound call and logs exactly
  one record, an error that holds the data body received; then it returns.
\<close>

theorem missing_field_aborts:
  assumes "carries_attributes ev" "data ev = PDict items" "items \<noteq> []"
    "k \<in> set [''bucket'', ''name'', ''size'', ''contentType'']"
    "\<not> truthy (dict_get items k)"
  shows "procesar_archivo_gcs environ post ev =
    \<lparr>outcome = Returned, logged = [(ERROR, Missing_metadata (PDict items))], sent = []\<rparr>"
proof -
  from assms(1) obtain event_id event_type timestamp where
    a: "attributes ev ''id'' = Some event_id" "attributes ev ''type'' = Some event_type"
       "attributes ev ''time'' = Some timestamp"
    by (rule carries_attributesD)
  have "\<not> list_all truthy [dict_get items ''bucket'', dict_get items ''name'',
                            dict_get items ''size'', dict_get items ''contentType'']"
    using assms(4,5) by auto
  then show ?thesis
    using a assms(2,3) by (simp add: procesar_archivo_gcs_def getitem_def)
qed

theorem missing_field_aborts_witness:
  "procesar_archivo_gcs no_environ (answers 200) (sample_event (PInt 0) (PStr ''text/plain'')) =
    \<lparr>outcome = Returned,
     logged = [(ERROR, Missing_metadata
                 (PDict [(''bucket'', PStr ''b1''), (''name'', PStr ''f.txt''),
                         (''size'', PInt 0), (''contentType'', PStr ''text/plain'')]))],
     sent = []\<rparr>"
proof -
  let ?ev = "sample_event (PInt 0) (PStr ''text/plain'')"
  let ?items = "sample_items (PInt 0) (PStr ''text/plain'')"
  have h1: "carries_attributes ?ev"
    by code_simp
  have h2: "data ?ev = PDict ?items"
    by (simp add: sample_event_def)
  have h3: "?items \<noteq> []"
    by (simp add: sample_items_def)
  have h4: "''size'' \<in> set [''bucket'', ''name'', ''size'', ''contentType'']"
    by simp
  have h5: "\<not> truthy (dict_get ?items ''size'')"
    by (simp add: dict_get_def sample_items_def)
  show ?thesis
    using missing_field_aborts[OF h1 h2 h3 h4 h5, of no_environ "answers 200"]
    by (simp add: sample_items_def)
qed

text \<open>
  C3. For every envelope (carrying its id, type and time) whose data body has the four
  essential fields non-empty and whose size is a string that is not an integer literal,
  such as \<^verbatim>\<open>"abc"\<close>, the handler makes no outbound call and returns, and the one error
  it logs is the conversion failure, whose \<^verbatim>\<open>ValueError\<close> quotes the offending string.
\<close>

theorem nonnumeric_size_logged:
  assumes "carries_attributes ev" "attributes ev ''id'' = Some event_id"
    "data ev = PDict items" "essential_fields (data ev)"
    "dict_get items ''size'' = PStr s" "int_literal s = None"
  shows "sent (procesar_archivo_gcs environ post ev) = [] \<and>
         outcome (procesar_archivo_gcs environ post ev) = Returned \<and>
         logged_at ERROR (procesar_archivo_gcs environ post ev) =
           [Size_conversion_failed event_id (dict_get items ''name'')
              (ValueError (Invalid_literal s))]"
proof -
  from assms(1) obtain event_type timestamp where
    a: "attributes ev ''type'' = Some event_type" "attributes ev ''time'' = Some timestamp"
    by (auto simp: carries_attributes_def)
  have t: "forwarding environ post event_id timestamp items =
             (Some (ValueError (Invalid_literal s)), [], [])"
    using assms(5,6) by (simp add: try_body_def)
  show ?thesis
    using valid_run[OF assms(2) a assms(3,4) t] by simp
qed

theorem nonnumeric_size_logged_witness:
  "sent (procesar_archivo_gcs no_environ (answers 200)
           (sample_event (PStr ''abc'') (PStr ''text/plain''))) = [] \<and>
   outcome (procesar_archivo_gcs no_environ (answers 200)
           (sample_event (PStr ''abc'') (PStr ''text/plain''))) = Returned \<and>
   logged_at ERROR (procesar_archivo_gcs no_environ (answers 200)
           (sample_event (PStr ''abc'') (PStr ''text/plain''))) =
     [Size_conversion_failed (PStr ''evt-1'') (PStr ''f.txt'')
        (ValueError (Invalid_literal ''abc''))]"
proof -
  let ?ev = "sample_event (PStr ''abc'') (PStr ''text/plain'')"
  let ?items = "sample_items (PStr ''abc'') (PStr ''text/plain'')"
  have h1: "carries_attributes ?ev"
    by code_simp
  have h2: "attributes ?ev ''id'' = Some (PStr ''evt-1'')"
    by (simp add: sample_event_def sample_attributes_def)
  have h3: "data ?ev = PDict ?items"
    by (simp add: sample_event_def)
  have h4: "essential_fields (data ?ev)"
    by code_simp
  have h5: "dict_get ?items ''size'' = PStr ''abc''"
    by (simp add: dict_get_def sample_items_def)
  have h6: "int_literal ''abc'' = None"
    by code_simp
  show ?thesis
    using nonnumeric_size_logged[OF h1 h2 h3 h4 h5 h6, of no_environ "answers 200"]
    by (simp add: dict_get_def sample_items_def)
qed

text \<open>
  C4. For every envelope (carrying its id, type and time) whose data body is absent,
  empty, or not a key-value mapping, the handler logs one error and returns without any
  outbound call.
\<close>

theorem invalid_body_aborts:
  assumes "carries_attributes ev" "\<not> truthy (data ev) \<or> \<not> isinstance_dict (data ev)"
  shows "procesar_archivo_gcs environ post ev =
    \<lparr>outcome = Returned, logged = [(ERROR, Invalid_event_data)], sent = []\<rparr>"
proof -
  from assms(1) obtain event_id event_type timestamp where
    a: "attributes ev ''id'' = Some event_id" "attributes ev ''type'' = Some event_type"
       "attributes ev ''time'' = Some timestamp"
    by (rule carries_attributesD)
  show ?thesis
    using a assms(2) by (auto simp: procesar_archivo_gcs_def getitem_def)
qed

theorem invalid_body_aborts_witness:
  "procesar_archivo_gcs no_environ (answers 200) (event_with_body PNone) =
     \<lparr>outcome = Returned, logged = [(ERROR, Invalid_event_data)], sent = []\<rparr> \<and>
   procesar_archivo_gcs no_environ (answers 200) (event_with_body (PDict [])) =
     \<lparr>outcome = Returned, logged = [(ERROR, Invalid_event_data)], sent = []\<rparr> \<and>
   procesar_archivo_gcs no_environ (answers 200) (event_with_body (PList [PStr ''b1''])) =
     \<lparr>outcome = Returned, logged = [(ERROR, Invalid_event_data)], sent = []\<rparr>"
proof -
  have h: "carries_attributes (event_with_body d)" for d
    by (simp add: carries_attributes_def event_with_body_def sample_attributes_def)
  have "\<not> truthy (data (event_with_body PNone)) \<or>
        \<not> isinstance_dict (data (event_with_body PNone))"
    and "\<not> truthy (data (event_with_body (PDict []))) \<or>
        \<not> isinstance_dict (data (event_with_body (PDict [])))"
    and "\<not> truthy (data (event_with_body (PList [PStr ''b1'']))) \<or>
        \<not> isinstance_dict (data (event_with_body (PList [PStr ''b1''])))"
    by (simp_all add: event_with_body_def)
  then show ?thesis
    using h invalid_body_aborts by blast
qed


subsection \<open>Delivery\<close>

text \<open>
  C5, as amended. For every well-formed envelope where the outbound POST is answered with
  a client or server error status (400 to 599, such as 500), the handler treats the
  answer as a failure: the one error it logs is the delivery failure carrying the
  \<^verbatim>\<open>HTTPError\<close> of that status, it has called \<^verbatim>\<open>requests.post\<close> exactly once (no
  retry, no second request), and it returns normally.
\<close>

theorem error_status_logged:
  assumes "well_formed ev" "attributes ev ''id'' = Some event_id"
    "\<And>request. post request = Inr resp"
    "400 \<le> status_code resp" "status_code resp < 600"
  shows "length (sent (procesar_archivo_gcs environ post ev)) = 1 \<and>
         outcome (procesar_archivo_gcs environ post ev) = Returned \<and>
         logged_at ERROR (procesar_archivo_gcs environ post ev) =
           [Send_failed event_id (RequestException (HTTPError (status_code resp)))]"
proof -
  from assms(1) obtain event_id' event_type timestamp items n ct where w:
    "attributes ev ''id'' = Some event_id'" "attributes ev ''type'' = Some event_type"
    "attributes ev ''time'' = Some timestamp" "data ev = PDict items"
    "essential_fields (data ev)" "py_int (dict_get items ''size'') = Inr n"
    "dict_get items ''contentType'' = PStr ct"
    by (rule well_formedD)
  obtain exc log1 calls where
    t: "forwarding environ post event_id timestamp items = (exc, log1, calls)"
    by (cases "forwarding environ post event_id timestamp items") auto
  have "exc = Some (RequestException (HTTPError (status_code resp)))"
    and "length calls = 1"
    and "filter (\<lambda>entry. fst entry = ERROR) log1 = []"
    using t w(6,7) assms(3,4,5)
    by (auto simp: try_body_def raise_for_status_def Let_def)
  then show ?thesis
    using valid_run[OF assms(2) w(2,3,4,5) t] by simp
qed

theorem error_status_logged_witness:
  "length (sent (procesar_archivo_gcs no_environ (answers 500)
                   (sample_event (PStr ''1024'') (PStr ''text/plain'')))) = 1 \<and>
   outcome (procesar_archivo_gcs no_environ (answers 500)
              (sample_event (PStr ''1024'') (PStr ''text/plain''))) = Returned \<and>
   logged_at ERROR (procesar_archivo_gcs no_environ (answers 500)
                      (sample_event (PStr ''1024'') (PStr ''text/plain''))) =
     [Send_failed (PStr ''evt-1'') (RequestException (HTTPError 500))]"
proof -
  let ?ev = "sample_event (PStr ''1024'') (PStr ''text/plain'')"
  let ?resp = "\<lparr>status_code = 500, response_text = ''OK''\<rparr>"
  have h1: "well_formed ?ev"
    by code_simp
  have h2: "attributes ?ev ''id'' = Some (PStr ''evt-1'')"
    by (simp add: sample_event_def sample_attributes_def)
  have h3: "answers 500 request = Inr ?resp" for request
    by (simp add: answers_def)
  have h4: "400 \<le> status_code ?resp" and h5: "status_code ?resp < 600"
    by simp_all
  show ?thesis
    using error_status_logged[OF h1 h2 h3 h4 h5, of no_environ] by simp
qed

text \<open>
  C5 as stated speaks of every status outside 200 to 299. \<^verbatim>\<open>raise_for_status\<close> raises
  for 400 to 599 only: an answer 304 to a well-formed envelope is logged as a success and
  no error is logged.
\<close>

theorem redirection_status_not_a_failure:
  "well_formed (sample_event (PStr ''1024'') (PStr ''text/plain'')) \<and>
   \<not> (200 \<le> (304 :: int) \<and> (304 :: int) < 300) \<and>
   logged_at ERROR (procesar_archivo_gcs no_environ (answers 304)
                      (sample_event (PStr ''1024'') (PStr ''text/plain''))) = [] \<and>
   last (logged (procesar_archivo_gcs no_environ (answers 304)
                   (sample_event (PStr ''1024'') (PStr ''text/plain'')))) =
     (INFO, Request_succeeded (PStr ''evt-1'') 304 ''OK'')"
  by code_simp

subsection \<open>Termination of an invocation\<close>



text \<open>
  C7. For every input envelope, whatever the configuration and the network, the handler
  makes zero or one outbound HTTP request in an invocation, never more.
\<close>

theorem at_most_one_request:
  "length (sent (procesar_archivo_gcs environ post ev)) \<le> 1"
  by (auto simp: procesar_archivo_gcs_def Let_def
           split: sum.splits option.splits prod.splits dest: try_body_calls)

theorem at_most_one_request_witness:
  "length (sent (procesar_archivo_gcs no_environ (answers 200)
                   (sample_event (PStr ''1024'') (PStr ''text/plain'')))) \<le> 1 \<and>
   length (sent (procesar_archivo_gcs no_environ (answers 200) event_without_id)) \<le> 1"
  using at_most_one_request[of no_environ "answers 200"
          "sample_event (PStr ''1024'') (PStr ''text/plain'')"]
        at_most_one_request[of no_environ "answers 200" event_without_id]
  by simp

subsection \<open>Advisories\<close>





subsection \<open>A content type that is not a string\<close>

text \<open>
  C10. For every envelope (carrying its id, type and time) that passes the essential-field
  validation, whose size converts to an integer and whose contentType is a truthy value
  that is not a string, such as an integer, the handler makes no outbound call and
  returns, and the one error it logs is the catch-all's, for the \<^verbatim>\<open>AttributeError\<close>
  the content type check raises at line 82.
\<close>

theorem nonstring_content_type_aborts:
  assumes "carries_attributes ev" "attributes ev ''id'' = Some event_id"
    "data ev = PDict items" "essential_fields (data ev)"
    "py_int (dict_get items ''size'') = Inr n"
    "\<not> isinstance_str (dict_get items ''contentType'')"
  shows "sent (procesar_archivo_gcs environ post ev) = [] \<and>
         outcome (procesar_archivo_gcs environ post ev) = Returned \<and>
         logged_at ERROR (procesar_archivo_gcs environ post ev) =
           [Unexpected_failure event_id (dict_get items ''name'')
              (AttributeError (dict_get items ''contentType'') ''startswith'')]"
proof -
  from assms(1) obtain event_type timestamp where
    a: "attributes ev ''type'' = Some event_type" "attributes ev ''time'' = Some timestamp"
    by (auto simp: carries_attributes_def)
  have t: "forwarding environ post event_id timestamp items =
             (Some (AttributeError (dict_get items ''contentType'') ''startswith''), [], [])"
    using assms(5) not_str_startswith[OF assms(6)] by (simp add: try_body_def)
  show ?thesis
    using valid_run[OF assms(2) a assms(3,4) t] by simp
qed

theorem nonstring_content_type_aborts_witness:
  "sent (procesar_archivo_gcs no_environ (answers 200)
           (sample_event (PStr ''1024'') (PInt 5))) = [] \<and>
   outcome (procesar_archivo_gcs no_environ (answers 200)
           (sample_event (PStr ''1024'') (PInt 5))) = Returned \<and>
   logged_at ERROR (procesar_archivo_gcs no_environ (answers 200)
           (sample_event (PStr ''1024'') (PInt 5))) =
     [Unexpected_failure (PStr ''evt-1'') (PStr ''f.txt'')
        (AttributeError (PInt 5) ''startswith'')]"
proof -
  let ?ev = "sample_event (PStr ''1024'') (PInt 5)"
  let ?items = "sample_items (PStr ''1024'') (PInt 5)"
  have h1: "carries_attributes ?ev"
    by code_simp
  have h2: "attributes ?ev ''id'' = Some (PStr ''evt-1'')"
    by (simp add: sample_event_def sample_attributes_def)
  have h3: "data ?ev = PDict ?items"
    by (simp add: sample_event_def)
  have h4: "essential_fields (data ?ev)"
    by code_simp
  have h5: "py_int (dict_get ?items ''size'') = Inr 1024"
    by code_simp
  have h6: "\<not> isinstance_str (dict_get ?items ''contentType'')"
    by (simp add: dict_get_def sample_items_def)
  show ?thesis
    using nonstring_content_type_aborts[OF h1 h2 h3 h4 h5 h6, of no_environ "answers 200"]
    by (simp add: dict_get_def sample_items_def)
qed


end
